theory Spec2Isabelle
  imports Complex_Main
begin

section \<open>J-V analyser: data model\<close>

text \<open>
  The program reads a two-column table of float64 numbers into a data frame with the
  columns \<^verbatim>\<open>V\<close> and \<^verbatim>\<open>C\<close> and a default index \<open>0, 1, 2, ...\<close>.
  A frame is modelled as the list of its rows, a row being the pair (voltage, current).

  Numbers are exact rationals. This idealises float64: rounding error, overflow and
  underflow of a product or quotient, \<^verbatim>\<open>-0.0\<close> and NaN in the data are outside the
  model (so a decimal tie such as 0.005 is a tie here and rounds to even, while the
  float64 nearest to it is not one). The one place where the program itself produces a
  non-finite number from finite rationals, the division in the fill factor, is modelled
  by the type \<open>fval\<close> below. Where a theorem speaks of all sweeps and its conclusion
  depends on the range of float64, it bounds the values explicitly.
\<close>

type_synonym sweep = "(rat \<times> rat) list"

definition col_V :: "sweep \<Rightarrow> rat list" where
  "col_V jv = map fst jv"

definition col_C :: "sweep \<Rightarrow> rat list" where
  "col_C jv = map snd jv"

text \<open>
  The exceptions the code can raise. \<open>SystemExit\<close> is what \<^verbatim>\<open>exit()\<close> raises after
  the message about the quadrant has been printed; nothing catches it, so the run ends.
  \<open>OverflowError\<close> is raised when a power of ten too large for a float multiplies a
  column.
\<close>

datatype error = IndexError | TypeError | ValueError | SystemExit | OverflowError

text \<open>\<^verbatim>\<open>jv.iloc[i]\<close>: the row at position \<open>i\<close>, IndexError when out of bounds.\<close>

definition iloc :: "sweep \<Rightarrow> nat \<Rightarrow> error + (rat \<times> rat)" where
  "iloc jv i = (if i < length jv then Inr (jv ! i) else Inl IndexError)"

section \<open>Quadrant correction and unit conversion\<close>

text \<open>\<^verbatim>\<open>fix_quadrant(jv, quadrant)\<close>, lines 10 to 21.\<close>

definition fix_quadrant :: "sweep \<Rightarrow> int \<Rightarrow> error + sweep" where
  "fix_quadrant jv quadrant =
     (if quadrant = 2 then Inr (map (\<lambda>(v, c). (v * (- 1), c)) jv)
      else if quadrant = 3 then Inr (map (\<lambda>(v, c). (v * (- 1), c * (- 1))) jv)
      else if quadrant = 4 then Inr (map (\<lambda>(v, c). (v, c * (- 1))) jv)
      else Inl SystemExit)"

text \<open>
  The branch of the main loop that calls it, lines 177 and 178:
  \<^verbatim>\<open>if cfg['quadrant'] != 1: jvdata = fix_quadrant(jvdata, cfg['quadrant'])\<close>.
\<close>

definition quadrant_branch :: "int \<Rightarrow> sweep \<Rightarrow> error + sweep" where
  "quadrant_branch quadrant jvdata =
     (if quadrant \<noteq> 1 then fix_quadrant jvdata quadrant else Inr jvdata)"

section \<open>Interpolation and maximum (numpy)\<close>

text \<open>
  \<^verbatim>\<open>numpy.interp(x, xp, fp)\<close> for a scalar \<open>x\<close>, with the default \<open>left\<close> and
  \<open>right\<close>. It raises ValueError on an empty \<open>xp\<close> and on arrays of different
  lengths. It does not check that \<open>xp\<close> increases. An \<open>x\<close> greater than the last
  element of \<open>xp\<close> gives the last element of \<open>fp\<close>, an \<open>x\<close> less than the first
  element of \<open>xp\<close> the first element of \<open>fp\<close>; these two tests come first, in
  this order. Otherwise the index \<open>j\<close> is found as numpy's search does on arrays
  of at most 4 elements (longer ones it bisects): past the first element, skip every
  element that is at most \<open>x\<close>. On an
  increasing \<open>xp\<close> that is the \<open>j\<close> with \<open>xp[j] \<le> x < xp[j+1]\<close>, whatever
  search is used. On an \<open>xp\<close> that does not increase numpy documents no result:
  no sweep evaluated below sends such an array past the first two tests, and the
  theorems about all sweeps do not depend on the index found.
\<close>

definition interp :: "rat \<Rightarrow> rat list \<Rightarrow> rat list \<Rightarrow> error + rat" where
  "interp x xp fp =
     (if xp = [] then Inl ValueError
      else if length fp \<noteq> length xp then Inl ValueError
      else if last xp < x then Inr (last fp)
      else if x < hd xp then Inr (hd fp)
      else
        let j = length (takeWhile (\<lambda>a. a \<le> x) (tl xp)) in
        if j = length xp - 1 then Inr (fp ! j)
        else if xp ! j = x then Inr (fp ! j)
        else Inr ((fp ! (j + 1) - fp ! j) / (xp ! (j + 1) - xp ! j) * (x - xp ! j) + fp ! j))"

text \<open>\<^verbatim>\<open>numpy.amax\<close> of a one-dimensional array; ValueError on an empty one.\<close>

definition amax :: "rat list \<Rightarrow> error + rat" where
  "amax xs = (case xs of [] \<Rightarrow> Inl ValueError | x # ys \<Rightarrow> Inr (fold max ys x))"

text \<open>
  \<^verbatim>\<open>float(a)\<close> of a one-dimensional array: its element when it has exactly one,
  TypeError otherwise (only size-1 arrays can be converted to Python scalars).
\<close>

definition float_of_array :: "rat list \<Rightarrow> error + rat" where
  "float_of_array a = (case a of [x] \<Rightarrow> Inr x | _ \<Rightarrow> Inl TypeError)"

section \<open>Formatting\<close>

text \<open>
  The result of a float64 division. Dividing by zero raises nothing in numpy: it gives
  an infinity or NaN. The zero divisor is taken as \<^verbatim>\<open>+0.0\<close>.
\<close>

datatype fval = Finite rat | PosInf | NegInf | NaN

definition fdiv :: "rat \<Rightarrow> rat \<Rightarrow> fval" where
  "fdiv a b =
     (if b \<noteq> 0 then Finite (a / b)
      else if a = 0 then NaN else if 0 < a then PosInf else NegInf)"

fun fmul :: "fval \<Rightarrow> rat \<Rightarrow> fval" where
  "fmul (Finite a) k = Finite (a * k)"
| "fmul x k = x"

text \<open>Decimal digits of a natural number, as \<^verbatim>\<open>str\<close> writes them.\<close>

definition digit_char :: "nat \<Rightarrow> char" where
  "digit_char d = ''0123456789'' ! d"

fun str_of_nat :: "nat \<Rightarrow> string" where
  "str_of_nat n =
     (if n < 10 then [digit_char n] else str_of_nat (n div 10) @ [digit_char (n mod 10)])"

text \<open>Rounding to the nearest integer, ties to the even one, as Python's formatting rounds.\<close>

definition round_half_even :: "rat \<Rightarrow> int" where
  "round_half_even x =
     (let f = \<lfloor>x\<rfloor>; d = x - of_int f in
      if d < 1 / 2 then f
      else if 1 / 2 < d then f + 1
      else if even f then f else f + 1)"

text \<open>
  \<^verbatim>\<open>format(x, '.nf')\<close>: a minus sign for a negative number (also when it rounds to
  zero), the integer part, and for \<open>n > 0\<close> a point and exactly \<open>n\<close> decimals.
\<close>

definition format_fixed :: "nat \<Rightarrow> rat \<Rightarrow> string" where
  "format_fixed n x =
     (let m = nat (round_half_even (\<bar>x\<bar> * 10 ^ n));
          ip = str_of_nat (m div 10 ^ n);
          fp = str_of_nat (m mod 10 ^ n)
      in (if x < 0 then ''-'' else '''') @ ip @
         (if n = 0 then '''' else ''.'' @ replicate (n - length fp) (CHR ''0'') @ fp))"

fun format_f :: "nat \<Rightarrow> fval \<Rightarrow> string" where
  "format_f n (Finite x) = format_fixed n x"
| "format_f n PosInf = ''inf''"
| "format_f n NegInf = ''-inf''"
| "format_f n NaN = ''nan''"

section \<open>Cell parameters\<close>

text \<open>
  The two scan-direction tests of \<^verbatim>\<open>get_parameters\<close>, lines 37 and 44:
  \<^verbatim>\<open>jv.iloc[0]['V'] < jv.iloc[1]['V']\<close> and \<^verbatim>\<open>jv.iloc[0]['V'] > jv.iloc[1]['V']\<close>.
\<close>

definition first_lt_second :: "sweep \<Rightarrow> error + bool" where
  "first_lt_second jv =
     (case iloc jv 0 of Inl e \<Rightarrow> Inl e
      | Inr r0 \<Rightarrow> (case iloc jv 1 of Inl e \<Rightarrow> Inl e | Inr r1 \<Rightarrow> Inr (fst r0 < fst r1)))"

definition first_gt_second :: "sweep \<Rightarrow> error + bool" where
  "first_gt_second jv =
     (case iloc jv 0 of Inl e \<Rightarrow> Inl e
      | Inr r0 \<Rightarrow> (case iloc jv 1 of Inl e \<Rightarrow> Inl e | Inr r1 \<Rightarrow> Inr (fst r0 > fst r1)))"

text \<open>
  Lines 30 to 40, the value of \<^verbatim>\<open>Jsc\<close>. With a zero among the voltages:
  the index labels of the rows whose voltage is 0, the currents at these positions,
  and \<^verbatim>\<open>float\<close> of that array.
\<close>

definition zero_index :: "sweep \<Rightarrow> nat list" where
  "zero_index jv = filter (\<lambda>i. col_V jv ! i = 0) [0..<length jv]"

definition calc_Jsc :: "sweep \<Rightarrow> error + rat" where
  "calc_Jsc jv =
     (if 0 \<in> set (col_V jv) then float_of_array (map (\<lambda>i. col_C jv ! i) (zero_index jv))
      else
        (case first_lt_second jv of Inl e \<Rightarrow> Inl e
         | Inr forward \<Rightarrow>
             if forward then interp 0 (col_V jv) (col_C jv)
             else interp 0 (rev (col_V jv)) (rev (col_C jv))))"

text \<open>Lines 44 to 47, the value of \<^verbatim>\<open>Voc\<close>.\<close>

definition calc_Voc :: "sweep \<Rightarrow> error + rat" where
  "calc_Voc jv =
     (case first_gt_second jv of Inl e \<Rightarrow> Inl e
      | Inr reverse \<Rightarrow>
          if reverse then interp 0 (col_C jv) (col_V jv)
          else interp 0 (rev (col_C jv)) (rev (col_V jv)))"

text \<open>Line 49, \<^verbatim>\<open>Wmax = numpy.amax(jv['V']*jv['C'])\<close>.\<close>

definition calc_Wmax :: "sweep \<Rightarrow> error + rat" where
  "calc_Wmax jv = amax (map (\<lambda>(v, c). v * c) jv)"

text \<open>
  \<^verbatim>\<open>get_parameters(jv)\<close>, lines 24 to 60. It returns the four strings
  \<^verbatim>\<open>Voc, Jsc, FF, PCE\<close> and nothing else.
\<close>

definition get_parameters :: "sweep \<Rightarrow> error + (string \<times> string \<times> string \<times> string)" where
  "get_parameters jv =
     (case calc_Jsc jv of Inl e \<Rightarrow> Inl e
      | Inr Jsc \<Rightarrow>
     (case calc_Voc jv of Inl e \<Rightarrow> Inl e
      | Inr Voc \<Rightarrow>
     (case calc_Wmax jv of Inl e \<Rightarrow> Inl e
      | Inr Wmax \<Rightarrow>
          let FF = fmul (fdiv Wmax (Jsc * Voc)) 100;
              PCE = Wmax / 1000
          in Inr (format_f 0 (Finite Voc), format_f 2 (Finite Jsc),
                  format_f 0 FF, format_f 2 (Finite PCE)))))"

text \<open>
  The values of the variables \<^verbatim>\<open>Voc, Jsc, FF, PCE\<close> after line 54, before lines
  56 to 59 overwrite them with strings.
\<close>

definition cell_parameters :: "sweep \<Rightarrow> error + (rat \<times> rat \<times> fval \<times> rat)" where
  "cell_parameters jv =
     (case calc_Jsc jv of Inl e \<Rightarrow> Inl e
      | Inr Jsc \<Rightarrow>
     (case calc_Voc jv of Inl e \<Rightarrow> Inl e
      | Inr Voc \<Rightarrow>
     (case calc_Wmax jv of Inl e \<Rightarrow> Inl e
      | Inr Wmax \<Rightarrow> Inr (Voc, Jsc, fmul (fdiv Wmax (Jsc * Voc)) 100, Wmax / 1000))))"

section \<open>Report outputs\<close>

text \<open>\<^verbatim>\<open>jv_plot\<close>, lines 65 to 68: the cell text of the table under the plot.\<close>

definition table_values :: "string \<Rightarrow> string \<Rightarrow> string \<Rightarrow> string \<Rightarrow> string list list" where
  "table_values Voc Jsc FF PCE =
     (if PCE \<noteq> ''0.00'' then [[Voc, Jsc, FF, PCE]]
      else [[''----'', ''----'', ''----'', ''----'']])"

text \<open>
  \<^verbatim>\<open>jv_datafile\<close>, lines 88 to 94: the strings written to the text file before the
  loop that writes one line for each data point. \<open>nl\<close> is the line feed, \<open>tab\<close> the
  tabulator.
\<close>

definition nl :: string where
  "nl = [CHR 0x0A]"

definition tab :: string where
  "tab = [CHR 0x09]"

definition datafile_head :: "string \<Rightarrow> string \<Rightarrow> string \<Rightarrow> string \<Rightarrow> string list" where
  "datafile_head Voc Jsc FF PCE =
     [''Main cell parameters:'' @ nl,
      ''Voc (mV): '' @ Voc @ nl,
      ''Jsc (mA cm-2): '' @ Jsc @ nl,
      ''FF (%): '' @ FF @ nl,
      ''PCE (%): '' @ PCE @ nl @ nl,
      ''List of JV data points:'' @ nl,
      ''V (mV)'' @ tab @ ''J (mA cm-2)'' @ nl]"

section \<open>The main loop\<close>

text \<open>
  The entries of \<^verbatim>\<open>config.yaml\<close> that the main loop uses between reading a file
  and computing its parameters.
\<close>

record config =
  quadrant :: int
  current :: string
  carea :: rat
  ucurrent :: int
  uarea :: int
  uvoltage :: int

text \<open>\<^verbatim>\<open>str.upper\<close> on ASCII letters.\<close>

definition upper_char :: "char \<Rightarrow> char" where
  "upper_char c =
     (case map_of (zip ''abcdefghijklmnopqrstuvwxyz'' ''ABCDEFGHIJKLMNOPQRSTUVWXYZ'') c of
        Some u \<Rightarrow> u | None \<Rightarrow> c)"

definition upper :: "string \<Rightarrow> string" where
  "upper s = map upper_char s"

text \<open>\<^verbatim>\<open>10**k\<close> for an integer \<open>k\<close>.\<close>

definition pow10 :: "int \<Rightarrow> rat" where
  "pow10 k = (if 0 \<le> k then 10 ^ nat k else 1 / 10 ^ nat (- k))"

text \<open>
  Lines 180 and 181, current to current density. Dividing the column by an area of 0
  raises nothing and fills it with infinities and NaN; these are not rationals, so the
  model is defined for a device area other than 0 and gives \<open>None\<close> otherwise.
\<close>

definition density_branch :: "config \<Rightarrow> sweep \<Rightarrow> sweep option" where
  "density_branch cfg jvdata =
     (if upper (current cfg) \<noteq> ''J''
      then (if carea cfg = 0 then None
            else Some (map (\<lambda>(v, c). (v, c / carea cfg)) jvdata))
      else Some jvdata)"

text \<open>
  Lines 183 to 187, the units of measure. For \<open>k \<ge> 0\<close> the power \<^verbatim>\<open>10**k\<close> is a
  Python integer, and multiplying a float by it converts it to a float first: from
  \<^verbatim>\<open>10**309\<close> on that raises OverflowError (int too large to convert to float).
  (On a column without any sample the numpy versions differ in whether the conversion
  takes place; the model raises there too.) For \<open>k < 0\<close> the power is a float and
  nothing is raised; below \<^verbatim>\<open>10**-308\<close> it is subnormal or 0.0, which the exact
  power of the model does not show.
\<close>

definition units_branch :: "config \<Rightarrow> sweep \<Rightarrow> error + sweep" where
  "units_branch cfg jvdata =
     (case (if ucurrent cfg \<noteq> 0 \<or> uarea cfg \<noteq> 0
            then (if 309 \<le> ucurrent cfg \<or> 309 \<le> - uarea cfg then Inl OverflowError
                  else Inr (map (\<lambda>(v, c). (v, c * pow10 (ucurrent cfg) * pow10 (- uarea cfg)))
                              jvdata))
            else Inr jvdata) of
        Inl e \<Rightarrow> Inl e
      | Inr jv1 \<Rightarrow>
          (if uvoltage cfg \<noteq> 0
           then (if 309 \<le> uvoltage cfg then Inl OverflowError
                 else Inr (map (\<lambda>(v, c). (v * pow10 (uvoltage cfg), c)) jv1))
           else Inr jv1))"

text \<open>
  Lines 176 to 187 together: the sweep that reaches \<^verbatim>\<open>get_parameters\<close>, or the
  exception that ended the run before.
\<close>

definition normalise :: "config \<Rightarrow> sweep \<Rightarrow> (error + sweep) option" where
  "normalise cfg jvdata =
     (case quadrant_branch (quadrant cfg) jvdata of
        Inl e \<Rightarrow> Some (Inl e)
      | Inr jv1 \<Rightarrow>
          (case density_branch cfg jv1 of
             None \<Rightarrow> None
           | Some jv2 \<Rightarrow> Some (units_branch cfg jv2)))"

text \<open>
  One pass of the main loop from line 176 to line 189: the strings returned by
  \<^verbatim>\<open>get_parameters\<close> on the converted sweep, or the exception that ended the run.
\<close>

definition main_loop_body ::
  "config \<Rightarrow> sweep \<Rightarrow> (error + (string \<times> string \<times> string \<times> string)) option" where
  "main_loop_body cfg jvdata =
     (case normalise cfg jvdata of
        None \<Rightarrow> None
      | Some (Inl e) \<Rightarrow> Some (Inl e)
      | Some (Inr jv) \<Rightarrow> Some (get_parameters jv))"

section \<open>Values well inside the range of float64\<close>

text \<open>
  The normal numbers of float64 reach from about 2.2e-308 to about 1.8e308. A voltage
  or current is called safe when it is 0 or between 1e-50 and 1e50 in magnitude:
  then the products and quotients that \<^verbatim>\<open>get_parameters\<close> forms stay in that
  range, as the theorem on FF and PCE below shows.
\<close>

definition float_safe :: "rat \<Rightarrow> bool" where
  "float_safe x = (x = 0 \<or> (1 / 10 ^ 50 \<le> \<bar>x\<bar> \<and> \<bar>x\<bar> \<le> 10 ^ 50))"

section \<open>Sweeps used below\<close>

text \<open>The six samples of the worked example.\<close>

definition example_sweep :: sweep where
  "example_sweep = [(- 50, 5), (0, 24 / 5), (50, 4), (100, 2), (150, 0), (200, - 3)]"

text \<open>Quadrant 1, current already a density, no unit conversion.\<close>

definition plain_config :: config where
  "plain_config =
     \<lparr>quadrant = 1, current = ''J'', carea = 1, ucurrent = 0, uarea = 0, uvoltage = 0\<rparr>"

text \<open>Two samples on either side of both axes.\<close>

definition sparse_sweep :: sweep where
  "sparse_sweep = [(- 1, 1), (2, - 1 / 2)]"

text \<open>A sweep in which two samples have the voltage 0.\<close>

definition double_zero_sweep :: sweep where
  "double_zero_sweep = [(0, 5), (0, 4), (100, 0)]"

text \<open>The first and the last sample of the worked example.\<close>

definition end_points_sweep :: sweep where
  "end_points_sweep = [(- 50, 5), (200, - 3)]"

text \<open>The worked example with the current at voltage 0 raised from 4.8 to 4.801.\<close>

definition shifted_sweep :: sweep where
  "shifted_sweep = [(- 50, 5), (0, 4801 / 1000), (50, 4), (100, 2), (150, 0), (200, - 3)]"

text \<open>A sweep of very low power: its largest product of voltage and current is 0.5.\<close>

definition dim_sweep :: sweep where
  "dim_sweep = [(0, 1 / 100), (100, 1 / 200), (200, 0)]"

text \<open>A sweep whose first two voltages are equal.\<close>

definition stalled_sweep :: sweep where
  "stalled_sweep = [(1, 3), (1, 2), (2, - 1)]"

section \<open>Facts about the parts of \<^verbatim>\<open>get_parameters\<close>\<close>

declare str_of_nat.simps [simp del]

text \<open>The currents picked through the index labels are the currents of the rows with voltage 0.\<close>

lemma zero_currents_filter:
  "map (\<lambda>i. col_C jv ! i) (zero_index jv) = map snd (filter (\<lambda>r. fst r = 0) jv)"
proof (induction jv rule: rev_induct)
  case Nil
  show ?case by (simp add: zero_index_def)
next
  case (snoc x xs)
  have a: "filter (\<lambda>i. col_V (xs @ [x]) ! i = 0) [0..<length xs]
           = filter (\<lambda>i. col_V xs ! i = 0) [0..<length xs]"
    by (rule filter_cong) (auto simp: col_V_def nth_append)
  have b: "map (\<lambda>i. col_C (xs @ [x]) ! i) (filter (\<lambda>i. col_V xs ! i = 0) [0..<length xs])
           = map (\<lambda>i. col_C xs ! i) (filter (\<lambda>i. col_V xs ! i = 0) [0..<length xs])"
    by (rule map_cong) (auto simp: col_C_def nth_append)
  from snoc have ih: "map (\<lambda>i. col_C xs ! i) (filter (\<lambda>i. col_V xs ! i = 0) [0..<length xs])
           = map snd (filter (\<lambda>r. fst r = 0) xs)"
    by (simp add: zero_index_def)
  have c: "col_V (xs @ [x]) ! length xs = fst x" "col_C (xs @ [x]) ! length xs = snd x"
    by (simp_all add: col_V_def col_C_def nth_append)
  show ?case
    by (simp add: zero_index_def a b ih c)
qed

lemma calc_Jsc_filter:
  "calc_Jsc jv =
     (if 0 \<in> set (col_V jv) then float_of_array (map snd (filter (\<lambda>r. fst r = 0) jv))
      else
        (case first_lt_second jv of Inl e \<Rightarrow> Inl e
         | Inr forward \<Rightarrow>
             if forward then interp 0 (col_V jv) (col_C jv)
             else interp 0 (rev (col_V jv)) (rev (col_C jv))))"
  by (simp add: calc_Jsc_def zero_currents_filter)


text \<open>On two columns of the same sweep \<^verbatim>\<open>numpy.interp\<close> returns a number.\<close>

lemma interp_returns:
  "xp \<noteq> [] \<Longrightarrow> length fp = length xp \<Longrightarrow> \<exists>y. interp x xp fp = Inr y"
  by (simp add: interp_def Let_def)

lemma first_lt_second_long:
  "2 \<le> length jv \<Longrightarrow> first_lt_second jv = Inr (fst (jv ! 0) < fst (jv ! 1))"
  by (cases jv) (auto simp: first_lt_second_def iloc_def)

lemma first_gt_second_long:
  "2 \<le> length jv \<Longrightarrow> first_gt_second jv = Inr (fst (jv ! 0) > fst (jv ! 1))"
  by (cases jv) (auto simp: first_gt_second_def iloc_def)

lemma calc_Voc_returns:
  assumes "2 \<le> length jv"
  shows "\<exists>y. calc_Voc jv = Inr y"
proof -
  from assms have ne: "col_C jv \<noteq> []" "rev (col_C jv) \<noteq> []"
    by (auto simp: col_C_def)
  have len: "length (col_V jv) = length (col_C jv)"
    "length (rev (col_V jv)) = length (rev (col_C jv))"
    by (simp_all add: col_V_def col_C_def)
  from interp_returns [OF ne(1) len(1)] interp_returns [OF ne(2) len(2)]
  show ?thesis using assms
    by (simp add: calc_Voc_def first_gt_second_long)
qed

text \<open>The maximum is the greatest element, in whatever order the array is.\<close>

lemma amax_Max:
  assumes "xs \<noteq> []"
  shows "amax xs = Inr (Max (set xs))"
proof (cases xs)
  case Nil
  with assms show ?thesis by simp
next
  case (Cons a as)
  have "fold max as a = Max (set (a # as))"
    by (rule Max.set_eq_fold [symmetric])
  then show ?thesis
    by (simp add: amax_def Cons)
qed

lemma calc_Wmax_Max:
  "jv \<noteq> [] \<Longrightarrow> calc_Wmax jv = Inr (Max ((\<lambda>(v, c). v * c) ` set jv))"
  by (simp add: calc_Wmax_def amax_Max)

lemma calc_Wmax_Inr:
  assumes "calc_Wmax jv = Inr W"
  shows "jv \<noteq> [] \<and> W = Max ((\<lambda>(v, c). v * c) ` set jv)"
proof -
  from assms have ne: "jv \<noteq> []"
    by (auto simp: calc_Wmax_def amax_def)
  with assms calc_Wmax_Max [OF ne] show ?thesis by simp
qed

lemma Wmax_nonneg_iff:
  assumes "calc_Wmax jv = Inr W"
  shows "0 \<le> W \<longleftrightarrow> (\<exists>r\<in>set jv. 0 \<le> fst r * snd r)"
proof -
  from calc_Wmax_Inr [OF assms] have ne: "jv \<noteq> []"
    and W: "W = Max ((\<lambda>(v, c). v * c) ` set jv)" by simp_all
  have "0 \<le> Max ((\<lambda>(v, c). v * c) ` set jv) \<longleftrightarrow> (\<exists>x\<in>(\<lambda>(v, c). v * c) ` set jv. 0 \<le> x)"
    using ne by (intro Max_ge_iff) simp_all
  then show ?thesis
    by (simp add: W case_prod_beta)
qed

lemma cell_parameters_Inr:
  assumes "cell_parameters jv = Inr (Voc, Jsc, FF, PCE)"
  shows "\<exists>W. calc_Jsc jv = Inr Jsc \<and> calc_Voc jv = Inr Voc \<and> calc_Wmax jv = Inr W
           \<and> FF = fmul (fdiv W (Jsc * Voc)) 100 \<and> PCE = W / 1000"
  using assms
  by (auto simp: cell_parameters_def split: sum.splits)

text \<open>The maximum is the product of one of the samples.\<close>

lemma Wmax_is_a_product:
  assumes "calc_Wmax jv = Inr W"
  shows "\<exists>r\<in>set jv. W = fst r * snd r"
proof -
  from calc_Wmax_Inr [OF assms] have ne: "jv \<noteq> []"
    and W: "W = Max ((\<lambda>(v, c). v * c) ` set jv)" by simp_all
  have "Max ((\<lambda>(v, c). v * c) ` set jv) \<in> (\<lambda>(v, c). v * c) ` set jv"
    using ne by (intro Max_in) simp_all
  then show ?thesis
    by (auto simp: W case_prod_beta)
qed

lemma float_safe_product:
  assumes "float_safe v" and "float_safe c"
  shows "v * c = 0 \<or> (1 / 10 ^ 100 \<le> \<bar>v * c\<bar> \<and> \<bar>v * c\<bar> \<le> 10 ^ 100)"
proof (cases "v = 0 \<or> c = 0")
  case True
  then show ?thesis by auto
next
  case False
  with assms have v: "1 / 10 ^ 50 \<le> \<bar>v\<bar>" "\<bar>v\<bar> \<le> 10 ^ 50"
    and c: "1 / 10 ^ 50 \<le> \<bar>c\<bar>" "\<bar>c\<bar> \<le> 10 ^ 50"
    by (auto simp: float_safe_def)
  have "(1 / 10 ^ 50) * (1 / 10 ^ 50) \<le> \<bar>v\<bar> * \<bar>c\<bar>"
    using v(1) c(1) by (intro mult_mono) simp_all
  moreover have "\<bar>v\<bar> * \<bar>c\<bar> \<le> 10 ^ 50 * 10 ^ 50"
    using v(2) c(2) by (intro mult_mono) simp_all
  moreover have "(1 / 10 ^ 50) * (1 / 10 ^ 50) = (1 / 10 ^ 100 :: rat)"
    and "(10 ^ 50 * 10 ^ 50 :: rat) = 10 ^ 100"
    by simp_all
  ultimately have "1 / 10 ^ 100 \<le> \<bar>v * c\<bar> \<and> \<bar>v * c\<bar> \<le> 10 ^ 100"
    by (simp only: abs_mult)
  then show ?thesis ..
qed







text \<open>A sweep of increasing voltage increases at its first two and at its last two samples.\<close>

lemma increasing_sweep_ends:
  assumes "2 \<le> length jv" and "sorted_wrt (<) (col_V jv)"
  shows "fst (jv ! 0) < fst (jv ! 1)"
    and "fst (jv ! (length jv - 2)) < fst (jv ! (length jv - 1))"
proof -
  have nth: "\<And>i j. i < j \<Longrightarrow> j < length jv \<Longrightarrow> fst (jv ! i) < fst (jv ! j)"
    using assms(2) by (auto simp: col_V_def sorted_wrt_iff_nth_less)
  from assms(1) show "fst (jv ! 0) < fst (jv ! 1)"
    by (intro nth) auto
  from assms(1) show "fst (jv ! (length jv - 2)) < fst (jv ! (length jv - 1))"
    by (intro nth) auto
qed

text \<open>The formatter: how far the rounded number is from the value, and how many decimals it writes.\<close>

lemma round_half_even_close: "\<bar>rat_of_int (round_half_even x) - x\<bar> \<le> 1 / 2"
proof -
  have "rat_of_int \<lfloor>x\<rfloor> \<le> x" and "x < rat_of_int \<lfloor>x\<rfloor> + 1"
    by linarith+
  then show ?thesis
    by (auto simp: round_half_even_def Let_def)
qed

lemma rounded_decimals_close:
  "\<bar>rat_of_int (round_half_even (\<bar>x\<bar> * 10 ^ n)) / 10 ^ n - \<bar>x\<bar>\<bar> \<le> 1 / 2 / 10 ^ n"
proof -
  define a where "a = rat_of_int (round_half_even (\<bar>x\<bar> * 10 ^ n))"
  define p :: rat where "p = 10 ^ n"
  have p: "0 < p" by (simp add: p_def)
  have h: "\<bar>a - \<bar>x\<bar> * p\<bar> \<le> 1 / 2"
    unfolding a_def p_def by (rule round_half_even_close)
  have "a / p - \<bar>x\<bar> = (a - \<bar>x\<bar> * p) / p"
    using p by (simp add: diff_divide_distrib)
  then have "\<bar>a / p - \<bar>x\<bar>\<bar> = \<bar>a - \<bar>x\<bar> * p\<bar> / p"
    using p by (simp only: abs_divide abs_of_pos)
  also have "\<dots> \<le> 1 / 2 / p"
    using h p by (simp only: divide_right_mono less_imp_le)
  finally show ?thesis
    unfolding a_def p_def .
qed

lemma length_str_of_nat:
  "0 < n \<Longrightarrow> k < 10 ^ n \<Longrightarrow> length (str_of_nat k) \<le> n"
proof (induction n arbitrary: k)
  case 0
  then show ?case by simp
next
  case (Suc n)
  show ?case
  proof (cases "k < 10")
    case True
    then show ?thesis by (simp add: str_of_nat.simps [of k])
  next
    case False
    with Suc.prems have n: "0 < n"
      by (cases n) auto
    from Suc.prems have "k div 10 < 10 ^ n"
      by (simp add: less_mult_imp_div_less mult.commute)
    from Suc.IH [OF n this] False show ?thesis
      by (simp add: str_of_nat.simps [of k])
  qed
qed

lemma format_fixed_decimals:
  assumes "0 < n"
  shows "\<exists>ip ds. format_fixed n x = (if x < 0 then ''-'' else '''') @ ip @ ''.'' @ ds
           \<and> length ds = n"
proof -
  define m where "m = nat (round_half_even (\<bar>x\<bar> * 10 ^ n))"
  have "m mod 10 ^ n < 10 ^ n" by simp
  from length_str_of_nat [OF assms this]
  have "length (replicate (n - length (str_of_nat (m mod 10 ^ n))) (CHR ''0'')
          @ str_of_nat (m mod 10 ^ n)) = n"
    by simp
  then show ?thesis
    using assms unfolding format_fixed_def Let_def m_def [symmetric]
    by (intro exI [of _ "str_of_nat (m div 10 ^ n)"]
        exI [of _ "replicate (n - length (str_of_nat (m mod 10 ^ n))) (CHR ''0'')
          @ str_of_nat (m mod 10 ^ n)"]) simp
qed

lemma format_fixed_0:
  "format_fixed 0 x = (if x < 0 then ''-'' else '''') @ str_of_nat (nat (round_half_even \<bar>x\<bar>))"
  by (simp add: format_fixed_def)

section \<open>The worked example\<close>

text \<open>
  C1. On the six-point sweep, under quadrant 1 and without unit conversion (the sweep
  reaches \<^verbatim>\<open>get_parameters\<close> as it is), a voltage of 0 is among the samples and Jsc
  is the current 4.8 of that sample; Voc is 150, which is also what interpolating
  between the samples (100, 2) and (150, 0) gives; Wmax is 200; and the returned strings
  are Voc = "150", Jsc = "4.80", FF = "28", PCE = "0.20".
\<close>

theorem example_sweep_parameters:
  "normalise plain_config example_sweep = Some (Inr example_sweep)
   \<and> 0 \<in> set (col_V example_sweep)
   \<and> calc_Jsc example_sweep = Inr (24 / 5)
   \<and> calc_Voc example_sweep = Inr 150
   \<and> interp 0 [0, 2] [150, 100] = Inr 150
   \<and> calc_Wmax example_sweep = Inr 200
   \<and> get_parameters example_sweep = Inr (''150'', ''4.80'', ''28'', ''0.20'')"
proof -
  have n: "normalise plain_config example_sweep = Some (Inr example_sweep)"
    by (simp add: normalise_def plain_config_def quadrant_branch_def density_branch_def
        units_branch_def upper_def upper_char_def)
  have z: "0 \<in> set (col_V example_sweep)"
    by (simp add: example_sweep_def col_V_def)
  have j: "calc_Jsc example_sweep = Inr (24 / 5)"
    by code_simp
  have v: "calc_Voc example_sweep = Inr 150"
    by code_simp
  have i: "interp 0 [0, 2] [150, 100] = Inr 150"
    by (simp add: interp_def)
  have w: "calc_Wmax example_sweep = Inr 200"
    by code_simp
  have g: "get_parameters example_sweep = Inr (''150'', ''4.80'', ''28'', ''0.20'')"
    by code_simp
  from n z j v i w g show ?thesis by simp
qed

section \<open>Jsc from a sample at voltage 0\<close>

text \<open>
  With exactly one sample at the voltage 0, in a sweep of at least two samples, Jsc is
  the current of that sample, taken as it is and not interpolated, and
  \<^verbatim>\<open>get_parameters\<close> returns it formatted with two decimals.
\<close>

lemma jsc_from_zero_sample:
  assumes "2 \<le> length jv"
    and "filter (\<lambda>r. fst r = 0) jv = [(0, c)]"
  shows "calc_Jsc jv = Inr c
         \<and> (\<exists>voc ff pce. get_parameters jv = Inr (voc, format_f 2 (Finite c), ff, pce))"
proof -
  have "(0, c) \<in> set (filter (\<lambda>r. fst r = 0) jv)"
    by (simp add: assms(2))
  then have "(0, c) \<in> set jv" by simp
  then have z: "0 \<in> set (col_V jv)"
    by (force simp: col_V_def)
  have j: "calc_Jsc jv = Inr c"
    by (simp add: calc_Jsc_filter z assms(2) float_of_array_def)
  from calc_Voc_returns [OF assms(1)] obtain voc where v: "calc_Voc jv = Inr voc" ..
  from assms(1) have "jv \<noteq> []" by auto
  then have w: "calc_Wmax jv = Inr (Max ((\<lambda>(v, c). v * c) ` set jv))"
    by (rule calc_Wmax_Max)
  from j v w show ?thesis
    by (simp add: get_parameters_def Let_def)
qed

lemma jsc_from_zero_sample_example:
  "calc_Jsc example_sweep = Inr (24 / 5)
   \<and> (\<exists>voc ff pce. get_parameters example_sweep = Inr (voc, format_f 2 (Finite (24 / 5)), ff, pce))"
proof -
  have l: "2 \<le> length example_sweep" by (simp add: example_sweep_def)
  have f: "filter (\<lambda>r. fst r = 0) example_sweep = [(0, 24 / 5)]"
    by (simp add: example_sweep_def)
  from jsc_from_zero_sample [OF l f] show ?thesis .
qed

text \<open>
  C2. The claim has the first of several samples at the voltage 0 give Jsc. The code
  does not do that: on the sweep (0, 5), (0, 4), (100, 0) the array given to
  \<^verbatim>\<open>float\<close> in line 32 has the two elements 5 and 4, the call raises TypeError,
  and \<^verbatim>\<open>get_parameters\<close> ends with that exception instead of returning 5.00 for
  Jsc. The comment of lines 25 to 29 takes the lookup for a shortcut of the
  interpolation, and the interpolation raises nothing on the columns of a sweep
  (\<open>interp_returns\<close>).
\<close>

theorem jsc_duplicate_zero_raises:
  "0 \<in> set (col_V double_zero_sweep)
   \<and> filter (\<lambda>r. fst r = 0) double_zero_sweep = [(0, 5), (0, 4)]
   \<and> calc_Jsc double_zero_sweep = Inl TypeError
   \<and> get_parameters double_zero_sweep = Inl TypeError"
  by code_simp

section \<open>Quadrant correction\<close>

text \<open>
  Called on quadrant 1, \<^verbatim>\<open>fix_quadrant\<close> itself ends the run; the main loop
  only calls it for other quadrants.
\<close>

lemma fix_quadrant_1: "fix_quadrant jv 1 = Inl SystemExit"
  by (simp add: fix_quadrant_def)

text \<open>
  C3. The quadrant step of the main loop leaves a quadrant-1 sweep unchanged, negates
  every voltage for quadrant 2, every voltage and every current for quadrant 3, every
  current for quadrant 4. For any other quadrant it ends in the exit that follows the
  message about the quadrant (the fault the specification calls ConfigurationError):
  that is not the result for quadrant 1, and the pass of the main loop ends there,
  before any parameter is computed.
\<close>

theorem quadrant_normalisation:
  "quadrant_branch 1 jv = Inr jv
   \<and> quadrant_branch 2 jv = Inr (map (\<lambda>(v, c). (- v, c)) jv)
   \<and> quadrant_branch 3 jv = Inr (map (\<lambda>(v, c). (- v, - c)) jv)
   \<and> quadrant_branch 4 jv = Inr (map (\<lambda>(v, c). (v, - c)) jv)
   \<and> (q \<notin> {1, 2, 3, 4} \<longrightarrow>
        quadrant_branch q jv = Inl SystemExit
        \<and> quadrant_branch q jv \<noteq> quadrant_branch 1 jv
        \<and> (quadrant cfg = q \<longrightarrow> main_loop_body cfg jv = Some (Inl SystemExit)))"
  by (simp add: quadrant_branch_def fix_quadrant_def main_loop_body_def normalise_def)

theorem quadrant_normalisation_witness:
  "(5::int) \<notin> {1, 2, 3, 4}
   \<and> quadrant_branch 5 example_sweep = Inl SystemExit
   \<and> quadrant (plain_config\<lparr>quadrant := 5\<rparr>) = 5
   \<and> main_loop_body (plain_config\<lparr>quadrant := 5\<rparr>) example_sweep = Some (Inl SystemExit)"
  using quadrant_normalisation [of example_sweep 5 "plain_config\<lparr>quadrant := 5\<rparr>"]
  by simp

section \<open>Reversed sweeps\<close>



section \<open>Signs of FF and PCE\<close>

text \<open>
  C5, as amended. Take a sweep whose voltages and currents are safe (0, or between
  1e-50 and 1e50 in magnitude) and on which the extracted Jsc and Voc lie between 1e-50
  and 1e50. Then Wmax is 0 or between 1e-100 and 1e100 in magnitude, the divisor
  Jsc Voc lies between 1e-100 and 1e100, FF is the number 100 Wmax / (Jsc Voc), and
  PCE is Wmax / 1000; unless Wmax is 0, FF lies between 1e-198 and 1e202 and PCE
  between 1e-103 and 1e97 in magnitude: all of it inside the range of float64. FF and
  PCE are non-negative exactly when some sample has a product of voltage and current
  that is not negative; otherwise both are negative.
\<close>

theorem ff_pce_sign_of_wmax:
  assumes "cell_parameters jv = Inr (Voc, Jsc, FF, PCE)"
    and "1 / 10 ^ 50 \<le> Jsc" and "Jsc \<le> 10 ^ 50"
    and "1 / 10 ^ 50 \<le> Voc" and "Voc \<le> 10 ^ 50"
    and "\<forall>r\<in>set jv. float_safe (fst r) \<and> float_safe (snd r)"
  shows "\<exists>W. calc_Wmax jv = Inr W
           \<and> (W = 0 \<or> (1 / 10 ^ 100 \<le> \<bar>W\<bar> \<and> \<bar>W\<bar> \<le> 10 ^ 100))
           \<and> 1 / 10 ^ 100 \<le> Jsc * Voc \<and> Jsc * Voc \<le> 10 ^ 100
           \<and> FF = Finite (W / (Jsc * Voc) * 100)
           \<and> \<bar>W / (Jsc * Voc) * 100\<bar> \<le> 10 ^ 202
           \<and> (W = 0 \<or> 1 / 10 ^ 198 \<le> \<bar>W / (Jsc * Voc) * 100\<bar>)
           \<and> PCE = W / 1000
           \<and> \<bar>PCE\<bar> \<le> 10 ^ 97
           \<and> (W = 0 \<or> 1 / 10 ^ 103 \<le> \<bar>PCE\<bar>)
           \<and> (0 \<le> W / (Jsc * Voc) * 100 \<longleftrightarrow> (\<exists>r\<in>set jv. 0 \<le> fst r * snd r))
           \<and> (0 \<le> PCE \<longleftrightarrow> (\<exists>r\<in>set jv. 0 \<le> fst r * snd r))"
proof -
  from cell_parameters_Inr [OF assms(1)] obtain W where w: "calc_Wmax jv = Inr W"
    and ff: "FF = fmul (fdiv W (Jsc * Voc)) 100" and pce: "PCE = W / 1000"
    by blast
  from Wmax_is_a_product [OF w] obtain r where r: "r \<in> set jv" "W = fst r * snd r"
    by blast
  with assms(6) have "float_safe (fst r)" "float_safe (snd r)" by auto
  from float_safe_product [OF this] r(2)
  have Wr: "W = 0 \<or> (1 / 10 ^ 100 \<le> \<bar>W\<bar> \<and> \<bar>W\<bar> \<le> 10 ^ 100)" by simp
  then have Wu: "\<bar>W\<bar> \<le> 10 ^ 100" by auto
  have J0: "0 < Jsc" and V0: "0 < Voc"
    using assms(2,4) by (auto intro: less_le_trans [of 0 "1 / 10 ^ 50"])
  then have pos: "0 < Jsc * Voc" by simp
  have "(1 / 10 ^ 50) * (1 / 10 ^ 50) \<le> Jsc * Voc"
    using assms(2,4) by (intro mult_mono) simp_all
  then have dl: "1 / 10 ^ 100 \<le> Jsc * Voc" by simp
  have "Jsc * Voc \<le> 10 ^ 50 * 10 ^ 50"
    using assms(3,5) J0 V0 by (intro mult_mono) simp_all
  then have du: "Jsc * Voc \<le> 10 ^ 100" by simp
  have f: "FF = Finite (W / (Jsc * Voc) * 100)"
    using J0 V0 by (simp add: ff fdiv_def)
  define q where "q = \<bar>W\<bar> / (Jsc * Voc)"
  have "q \<le> 10 ^ 100 / (1 / 10 ^ 100)"
    unfolding q_def using Wu dl by (intro frac_le) simp_all
  then have "q \<le> 10 ^ 200" by simp
  then have "q * 100 \<le> 10 ^ 200 * 100"
    by (rule mult_right_mono) simp
  then have qb: "q * 100 \<le> 10 ^ 202" by simp
  have "\<bar>W / (Jsc * Voc) * 100\<bar> = q * 100"
    unfolding q_def using J0 V0 by (simp add: abs_mult abs_divide abs_of_pos)
  with qb have fb: "\<bar>W / (Jsc * Voc) * 100\<bar> \<le> 10 ^ 202" by simp
  have fl: "W = 0 \<or> 1 / 10 ^ 198 \<le> \<bar>W / (Jsc * Voc) * 100\<bar>"
  proof (cases "W = 0")
    case True
    then show ?thesis by simp
  next
    case False
    with Wr have "1 / 10 ^ 100 \<le> \<bar>W\<bar>" by simp
    then have "1 / 10 ^ 100 / 10 ^ 100 \<le> q"
      unfolding q_def using pos du by (intro frac_le) simp_all
    then have "1 / 10 ^ 100 / 10 ^ 100 * 100 \<le> q * 100"
      by (rule mult_right_mono) simp
    then have "1 / 10 ^ 198 \<le> q * 100" by simp
    with \<open>\<bar>W / (Jsc * Voc) * 100\<bar> = q * 100\<close> show ?thesis by simp
  qed
  have pl: "W = 0 \<or> 1 / 10 ^ 103 \<le> \<bar>PCE\<bar>"
    using Wr by (auto simp: pce)
  have pb: "\<bar>PCE\<bar> \<le> 10 ^ 97"
    using Wu by (simp add: pce)
  have s: "0 \<le> W / (Jsc * Voc) * 100 \<longleftrightarrow> 0 \<le> W"
    using pos by (simp add: zero_le_divide_iff)
  have p: "0 \<le> PCE \<longleftrightarrow> 0 \<le> W"
    by (simp add: pce)
  from w Wr dl du f fb fl pce pb pl s p Wmax_nonneg_iff [OF w] show ?thesis by blast
qed

theorem ff_pce_sign_witness:
  "\<exists>W. calc_Wmax example_sweep = Inr W
      \<and> (W = 0 \<or> (1 / 10 ^ 100 \<le> \<bar>W\<bar> \<and> \<bar>W\<bar> \<le> 10 ^ 100))
      \<and> Finite (250 / 9) = Finite (W / (24 / 5 * 150) * 100)
      \<and> \<bar>W / (24 / 5 * 150) * 100\<bar> \<le> 10 ^ 202
      \<and> (1 / 5 :: rat) = W / 1000
      \<and> (0 \<le> W / (24 / 5 * 150) * 100 \<longleftrightarrow> (\<exists>r\<in>set example_sweep. 0 \<le> fst r * snd r))
      \<and> ((0::rat) \<le> 1 / 5 \<longleftrightarrow> (\<exists>r\<in>set example_sweep. 0 \<le> fst r * snd r))"
proof -
  have c: "cell_parameters example_sweep = Inr (150, 24 / 5, Finite (250 / 9), 1 / 5)"
    by code_simp
  have j: "(1 / 10 ^ 50 :: rat) \<le> 24 / 5" "(24 / 5 :: rat) \<le> 10 ^ 50"
    and v: "(1 / 10 ^ 50 :: rat) \<le> 150" "(150 :: rat) \<le> 10 ^ 50" by simp_all
  have s: "\<forall>r\<in>set example_sweep. float_safe (fst r) \<and> float_safe (snd r)"
    by (simp add: example_sweep_def float_safe_def)
  from ff_pce_sign_of_wmax [OF c j v s] show ?thesis by blast
qed

text \<open>
  C5 as stated fails: on the two end points of the worked example Jsc = 3.4 and
  Voc = 106.25 are positive, yet both products of voltage and current are negative, so
  Wmax = -250, FF is about -69.2 and PCE = -0.25.
\<close>

theorem ff_pce_negative_example:
  "cell_parameters end_points_sweep = Inr (425 / 4, 17 / 5, Finite (- (20000 / 289)), - (1 / 4))
   \<and> (0::rat) < 17 / 5 \<and> (0::rat) < 425 / 4
   \<and> - (20000 / 289) < (0::rat) \<and> - (1 / 4) < (0::rat)
   \<and> get_parameters end_points_sweep = Inr (''106'', ''3.40'', ''-69'', ''-0.25'')"
  by code_simp

section \<open>The placeholder row\<close>

text \<open>
  C6, as amended. In the table of the plot the four strings are replaced by the row of
  placeholders exactly when the formatted PCE is "0.00", and shown otherwise. The text
  file has no such branch: its block of parameters always holds the four computed
  strings, whatever the PCE, so that the strings can be read back from it.
\<close>

theorem placeholder_in_table_only:
  "(PCE = ''0.00'' \<longrightarrow> table_values Voc Jsc FF PCE = [[''----'', ''----'', ''----'', ''----'']])
   \<and> (PCE \<noteq> ''0.00'' \<longrightarrow> table_values Voc Jsc FF PCE = [[Voc, Jsc, FF, PCE]])
   \<and> datafile_head Voc Jsc FF PCE ! 1 = ''Voc (mV): '' @ Voc @ nl
   \<and> datafile_head Voc Jsc FF PCE ! 2 = ''Jsc (mA cm-2): '' @ Jsc @ nl
   \<and> datafile_head Voc Jsc FF PCE ! 3 = ''FF (%): '' @ FF @ nl
   \<and> datafile_head Voc Jsc FF PCE ! 4 = ''PCE (%): '' @ PCE @ nl @ nl
   \<and> (datafile_head Voc Jsc FF PCE = datafile_head Voc' Jsc' FF' PCE' \<longrightarrow>
        Voc = Voc' \<and> Jsc = Jsc' \<and> FF = FF' \<and> PCE = PCE')"
  by (simp add: table_values_def datafile_head_def)

theorem placeholder_in_table_only_witness:
  "table_values ''200'' ''0.01'' ''25'' ''0.00'' = [[''----'', ''----'', ''----'', ''----'']]
   \<and> table_values ''150'' ''4.80'' ''28'' ''0.20'' = [[''150'', ''4.80'', ''28'', ''0.20'']]
   \<and> datafile_head ''200'' ''0.01'' ''25'' ''0.00'' ! 4 = ''PCE (%): 0.00'' @ nl @ nl"
  using placeholder_in_table_only [of "''0.00''" "''200''" "''0.01''" "''25''"]
    placeholder_in_table_only [of "''0.20''" "''150''" "''4.80''" "''28''"]
  by simp

text \<open>
  C6 as stated fails for the text file: the sweep below has the formatted PCE "0.00",
  the table of its plot shows the placeholders, and its text file shows
  200, 0.01, 25 and 0.00.
\<close>

theorem datafile_keeps_metrics_of_dim_sweep:
  "get_parameters dim_sweep = Inr (''200'', ''0.01'', ''25'', ''0.00'')
   \<and> table_values ''200'' ''0.01'' ''25'' ''0.00'' = [[''----'', ''----'', ''----'', ''----'']]
   \<and> datafile_head ''200'' ''0.01'' ''25'' ''0.00'' =
       [''Main cell parameters:'' @ nl, ''Voc (mV): 200'' @ nl, ''Jsc (mA cm-2): 0.01'' @ nl,
        ''FF (%): 25'' @ nl, ''PCE (%): 0.00'' @ nl @ nl, ''List of JV data points:'' @ nl,
        ''V (mV)'' @ tab @ ''J (mA cm-2)'' @ nl]"
proof -
  have g: "get_parameters dim_sweep = Inr (''200'', ''0.01'', ''25'', ''0.00'')"
    by code_simp
  then show ?thesis
    by (simp add: table_values_def datafile_head_def)
qed

section \<open>What \<^verbatim>\<open>get_parameters\<close> returns\<close>

text \<open>
  C7, as amended. The rounding is the last step of \<^verbatim>\<open>get_parameters\<close> itself:
  it returns the strings that format Voc with 0 decimals, Jsc with 2, FF with 0 and
  PCE with 2 (a formatted number differs from the value by at most half a unit of its
  last decimal; with 2 decimals two digits follow the point, with 0 decimals there is
  no point), and an exception is passed on. These four strings are all it returns.
\<close>

theorem get_parameters_returns_strings:
  "(cell_parameters jv = Inr (Voc, Jsc, FF, PCE) \<longrightarrow>
      get_parameters jv = Inr (format_f 0 (Finite Voc), format_f 2 (Finite Jsc),
                               format_f 0 FF, format_f 2 (Finite PCE)))
   \<and> (cell_parameters jv = Inl e \<longrightarrow> get_parameters jv = Inl e)
   \<and> \<bar>rat_of_int (round_half_even (\<bar>x\<bar> * 10 ^ n)) / 10 ^ n - \<bar>x\<bar>\<bar> \<le> 1 / 2 / 10 ^ n
   \<and> (\<exists>ip ds. format_f 2 (Finite x) = (if x < 0 then ''-'' else '''') @ ip @ ''.'' @ ds
          \<and> length ds = 2)
   \<and> format_f 0 (Finite x)
       = (if x < 0 then ''-'' else '''') @ str_of_nat (nat (round_half_even \<bar>x\<bar>))"
proof -
  have a: "cell_parameters jv = Inr (Voc, Jsc, FF, PCE) \<longrightarrow>
      get_parameters jv = Inr (format_f 0 (Finite Voc), format_f 2 (Finite Jsc),
                               format_f 0 FF, format_f 2 (Finite PCE))"
    by (auto simp: cell_parameters_def get_parameters_def Let_def split: sum.splits)
  have b: "cell_parameters jv = Inl e \<longrightarrow> get_parameters jv = Inl e"
    by (auto simp: cell_parameters_def get_parameters_def Let_def split: sum.splits)
  have c: "\<exists>ip ds. format_f 2 (Finite x) = (if x < 0 then ''-'' else '''') @ ip @ ''.'' @ ds
          \<and> length ds = 2"
    using format_fixed_decimals [of 2 x] by simp
  from a b c rounded_decimals_close [of x n] format_fixed_0 [of x] show ?thesis
    by simp
qed

theorem get_parameters_returns_strings_witness:
  "get_parameters example_sweep = Inr (format_f 0 (Finite 150), format_f 2 (Finite (24 / 5)),
                               format_f 0 (Finite (250 / 9)), format_f 2 (Finite (1 / 5)))
   \<and> get_parameters [] = Inl IndexError"
proof -
  have c: "cell_parameters example_sweep = Inr (150, 24 / 5, Finite (250 / 9), 1 / 5)"
    by code_simp
  have d: "cell_parameters [] = Inl IndexError"
    by code_simp
  from c d get_parameters_returns_strings [of example_sweep 150 "24 / 5" "Finite (250 / 9)" "1 / 5"]
    get_parameters_returns_strings [of "[]" _ _ _ _ IndexError]
  show ?thesis by simp
qed

text \<open>
  C7 as stated fails where it has the unrounded values remain available: they are not
  part of the result, and the result does not determine them. The worked example and
  the sweep with 4.801 in place of 4.8 have different Jsc and FF and the same result.
\<close>

theorem unrounded_values_not_returned:
  "get_parameters shifted_sweep = get_parameters example_sweep
   \<and> cell_parameters shifted_sweep \<noteq> cell_parameters example_sweep"
  by code_simp

section \<open>Sweeps with fewer than two samples\<close>







text \<open>With an exponent of 309 or more the unit conversion itself ends the pass.\<close>

lemma overflow_in_units:
  "normalise (plain_config\<lparr>uvoltage := 400\<rparr>) [(100, 2)] = Some (Inl OverflowError)
   \<and> main_loop_body (plain_config\<lparr>uvoltage := 400\<rparr>) [(100, 2)] = Some (Inl OverflowError)"
  by (simp add: main_loop_body_def normalise_def plain_config_def quadrant_branch_def
      density_branch_def units_branch_def upper_def upper_char_def)




section \<open>Equal first voltages\<close>

text \<open>
  C9. For every sweep (of at least two samples) whose first two voltages are equal,
  both tests of the scan direction are false. So Jsc, when it is interpolated (no
  voltage is 0), is computed on the reversed arrays, as for a reverse scan, and Voc is
  computed on the reversed arrays too, as for a forward scan.
\<close>

theorem equal_first_voltages_reverse_both:
  assumes "2 \<le> length jv" and "fst (jv ! 0) = fst (jv ! 1)"
  shows "first_lt_second jv = Inr False
         \<and> first_gt_second jv = Inr False
         \<and> (0 \<notin> set (col_V jv) \<longrightarrow>
              calc_Jsc jv = interp 0 (rev (col_V jv)) (rev (col_C jv)))
         \<and> calc_Voc jv = interp 0 (rev (col_C jv)) (rev (col_V jv))"
  using assms
  by (simp add: first_lt_second_long first_gt_second_long calc_Jsc_def calc_Voc_def)

theorem equal_first_voltages_witness:
  "first_lt_second stalled_sweep = Inr False
   \<and> first_gt_second stalled_sweep = Inr False
   \<and> calc_Jsc stalled_sweep = interp 0 [2, 1, 1] [- 1, 2, 3]
   \<and> calc_Voc stalled_sweep = interp 0 [- 1, 2, 3] [2, 1, 1]"
  using equal_first_voltages_reverse_both [of stalled_sweep]
  by (simp add: stalled_sweep_def col_V_def col_C_def)

section \<open>A small negative efficiency\<close>

text \<open>
  C10. There is a sweep, the two samples (-1, 1) and (2, -1/2), whose PCE is -0.001:
  its formatted PCE is "-0.00", which differs from "0.00", and the table of the plot
  shows the four computed strings, not the placeholders.
\<close>

theorem negative_zero_pce_shows_metrics:
  "cell_parameters sparse_sweep = Inr (1, 1 / 2, Finite (- 200), - 1 / 1000)
   \<and> get_parameters sparse_sweep = Inr (''1'', ''0.50'', ''-200'', ''-0.00'')
   \<and> ''-0.00'' \<noteq> ''0.00''
   \<and> table_values ''1'' ''0.50'' ''-200'' ''-0.00'' = [[''1'', ''0.50'', ''-200'', ''-0.00'']]"
proof -
  have c: "cell_parameters sparse_sweep = Inr (1, 1 / 2, Finite (- 200), - 1 / 1000)"
    by code_simp
  have g: "get_parameters sparse_sweep = Inr (''1'', ''0.50'', ''-200'', ''-0.00'')"
    by code_simp
  have t: "table_values ''1'' ''0.50'' ''-200'' ''-0.00'' = [[''1'', ''0.50'', ''-200'', ''-0.00'']]"
    by (simp add: table_values_def)
  from c g t show ?thesis by simp
qed

end
